theory Spec2Isabelle
  imports Main "HOL-Library.AList"
begin

section \<open>Errors\<close>

text \<open>
  The exceptions of \<^verbatim>\<open>py_pdf_parser/tables.py\<close>, as values. The message of a
  \<^verbatim>\<open>TableExtractionError\<close> and of an \<^verbatim>\<open>InvalidTableHeaderError\<close> is kept as a
  constructor, and the three numbers an \<^verbatim>\<open>InvalidTableError\<close> prints are its fields.
  \<^verbatim>\<open>IndexError\<close> and \<^verbatim>\<open>ValueError\<close> are Python's own (\<^verbatim>\<open>table[0]\<close> on an empty
  list, \<^verbatim>\<open>min([])\<close>).
\<close>

datatype extraction_message =
    SizeMismatch nat nat  \<comment> \<open>"Number of elements in table (a) does not match number of elements passed b"\<close>
  | MultipleRows          \<comment> \<open>"An element is in multiple rows"\<close>
  | MultipleColumns       \<comment> \<open>"An element is in multiple columns"\<close>

datatype header_message =
    HeaderLength nat nat  \<comment> \<open>"Header length of a does not match the width of the table (b)"\<close>
  | HeaderRepeated        \<comment> \<open>"Header contains repeated elements"\<close>

datatype error =
    TableExtractionError extraction_message
  | NoElementFoundError
  | MultipleElementsFoundError
  | InvalidTableError nat nat nat  \<comment> \<open>length of row 0, index of the row, length of that row\<close>
  | InvalidTableHeaderError header_message
  | IndexError
  | ValueError

section \<open>Python building blocks\<close>

text \<open>\<^verbatim>\<open>xs[0]\<close>: raises \<^verbatim>\<open>IndexError\<close> on an empty sequence.\<close>

definition getitem0 :: "'a list \<Rightarrow> error + 'a" where
  "getitem0 xs = (case xs of [] \<Rightarrow> Inl IndexError | x # _ \<Rightarrow> Inr x)"

text \<open>
  \<^verbatim>\<open>out = []; for x in xs: out.append(f(x))\<close>, where \<^verbatim>\<open>f\<close> may raise: the loop stops at
  the first exception, which becomes the result.
\<close>

fun for_append :: "('a \<Rightarrow> error + 'b) \<Rightarrow> 'a list \<Rightarrow> error + 'b list" where
  "for_append f [] = Inr []"
| "for_append f (x # xs) =
     (case f x of
        Inl e \<Rightarrow> Inl e
      | Inr y \<Rightarrow> (case for_append f xs of Inl e \<Rightarrow> Inl e | Inr ys \<Rightarrow> Inr (y # ys)))"

section \<open>The Shape Validator\<close>

text \<open>
  The loop of \<^verbatim>\<open>_validate_table_shape\<close> over \<^verbatim>\<open>enumerate(table[1:])\<close>: \<open>idx\<close> is the
  loop's index, so the row it looks at is row \<open>idx + 1\<close> of the table.
\<close>

fun validate_rows :: "nat \<Rightarrow> nat \<Rightarrow> 'a list list \<Rightarrow> error + unit" where
  "validate_rows first_row_len idx [] = Inr ()"
| "validate_rows first_row_len idx (row # rows) =
     (if \<not> length row = first_row_len
      then Inl (InvalidTableError first_row_len (idx + 1) (length row))
      else validate_rows first_row_len (Suc idx) rows)"

text \<open>\<^verbatim>\<open>_validate_table_shape\<close>: \<^verbatim>\<open>table[0]\<close> raises on a table with no row.\<close>

definition validate_table_shape :: "'a list list \<Rightarrow> error + unit" where
  "validate_table_shape table =
     (case table of
        [] \<Rightarrow> Inl IndexError
      | row0 # rest \<Rightarrow> validate_rows (length row0) 0 rest)"

section \<open>Header merge and text projection\<close>

text \<open>
  A Python \<^verbatim>\<open>dict\<close> is an association list with pairwise different keys, in insertion
  order: storing under a key that is present replaces its value in place, storing under a
  new key appends, which is \<^const>\<open>AList.update\<close>.

  The comprehension \<^verbatim>\<open>{header[idx]: element for idx, element in enumerate(row)}\<close>:
  \<^verbatim>\<open>header[idx]\<close> raises \<^verbatim>\<open>IndexError\<close> once \<open>idx\<close> reaches the header's length.
\<close>

fun dict_of_row :: "'k list \<Rightarrow> 'v list \<Rightarrow> ('k \<times> 'v) list \<Rightarrow> error + ('k \<times> 'v) list" where
  "dict_of_row header [] d = Inr d"
| "dict_of_row [] (element # row) d = Inl IndexError"
| "dict_of_row (h # header) (element # row) d = dict_of_row header row (AList.update h element d)"

text \<open>\<^verbatim>\<open>new_table.pop(0)\<close>, of which only the remaining list is used.\<close>

definition pop0 :: "'a list \<Rightarrow> error + 'a list" where
  "pop0 xs = (case xs of [] \<Rightarrow> Inl IndexError | _ # rest \<Rightarrow> Inr rest)"

text \<open>
  The header of \<^verbatim>\<open>add_header_to_table\<close> after its \<^verbatim>\<open>if/elif/elif\<close> chain: row 0 when
  the argument is \<^verbatim>\<open>None\<close>, and the checked argument otherwise.
\<close>

definition choose_header :: "string list list \<Rightarrow> string list option \<Rightarrow> error + string list" where
  "choose_header table header =
     (case header of
        None \<Rightarrow> getitem0 table
      | Some h \<Rightarrow>
          (case getitem0 table of
             Inl e \<Rightarrow> Inl e
           | Inr row0 \<Rightarrow>
               if length h \<noteq> length row0
               then Inl (InvalidTableHeaderError (HeaderLength (length h) (length row0)))
               else if length h \<noteq> card (set h)
               then Inl (InvalidTableHeaderError HeaderRepeated)
               else Inr h))"

text \<open>
  \<^verbatim>\<open>add_header_to_table\<close>. \<^verbatim>\<open>header_provided = bool(header)\<close> is Python's truth value
  of the argument: false for \<^verbatim>\<open>None\<close> and for the empty list.
\<close>

definition add_header_to_table ::
  "string list list \<Rightarrow> string list option \<Rightarrow> error + (string \<times> string) list list" where
  "add_header_to_table table header =
     (case validate_table_shape table of
        Inl e \<Rightarrow> Inl e
      | Inr _ \<Rightarrow>
          let header_provided = (case header of None \<Rightarrow> False | Some h \<Rightarrow> h \<noteq> []) in
          (case choose_header table header of
             Inl e \<Rightarrow> Inl e
           | Inr hdr \<Rightarrow>
               (case for_append (\<lambda>row. dict_of_row hdr row []) table of
                  Inl e \<Rightarrow> Inl e
                | Inr new_table \<Rightarrow>
                    if \<not> header_provided then pop0 new_table else Inr new_table)))"

text \<open>
  \<^verbatim>\<open>_extract_text_from_table\<close>; \<open>text\<close> is the elements' \<^verbatim>\<open>text\<close> attribute.
\<close>

definition extract_text_from_table_priv ::
  "('e \<Rightarrow> string) \<Rightarrow> 'e option list list \<Rightarrow> error + string list list" where
  "extract_text_from_table_priv text table =
     (case validate_table_shape table of
        Inl e \<Rightarrow> Inl e
      | Inr _ \<Rightarrow>
          Inr (map (\<lambda>row. map (\<lambda>element. case element of Some el \<Rightarrow> text el | None \<Rightarrow> []) row)
                 table))"

section \<open>The element collection: the collaborator of the extractors\<close>

text \<open>
  \<^verbatim>\<open>ElementList\<close> and \<^verbatim>\<open>PDFElement\<close> are imported by \<^verbatim>\<open>tables.py\<close> from modules that
  are not part of it. An element is a value of a type \<open>'e\<close> compared by equality, and an
  element collection is the list of its elements in iteration order; two collections are
  the same collection when these lists are equal, and \<^verbatim>\<open>len\<close> is the list's length.

  The spatial queries, all called with \<^verbatim>\<open>inclusive=True\<close>, and the attributes of an
  element are parameters of the extractors: a record of arbitrary functions, of which
  nothing is assumed. Each query takes the collection it is called on and the reference
  element. Coordinates are of any linearly ordered type \<open>'c\<close>.
\<close>

record ('e, 'c) collaborator =
  to_the_right_of :: "'e list \<Rightarrow> 'e \<Rightarrow> 'e list"
  below :: "'e list \<Rightarrow> 'e \<Rightarrow> 'e list"
  horizontally_in_line_with :: "'e list \<Rightarrow> 'e \<Rightarrow> 'e list"
  vertically_in_line_with :: "'e list \<Rightarrow> 'e \<Rightarrow> 'e list"
  x0 :: "'e \<Rightarrow> 'c"
  y0 :: "'e \<Rightarrow> 'c"
  element_text :: "'e \<Rightarrow> string"

text \<open>
  Modelled from the spec: \<^verbatim>\<open>ElementList.extract_single_element\<close>, which is not in
  \<^verbatim>\<open>tables.py\<close>. It "fails with a no element found condition when the collection is
  empty, and with an ambiguous condition when it contains more than one element".
\<close>

definition extract_single_element :: "'e list \<Rightarrow> error + 'e" where
  "extract_single_element elements =
     (case elements of
        [] \<Rightarrow> Inl NoElementFoundError
      | [element] \<Rightarrow> Inr element
      | _ # _ # _ \<Rightarrow> Inl MultipleElementsFoundError)"

text \<open>
  Modelled from the spec: the intersection \<^verbatim>\<open>row & col\<close> of two collections
  (\<^verbatim>\<open>ElementList.__and__\<close>, not in \<^verbatim>\<open>tables.py\<close>): the elements of the first that
  are in the second.
\<close>

definition intersection :: "'e list \<Rightarrow> 'e list \<Rightarrow> 'e list" where
  "intersection row col = filter (\<lambda>element. element \<in> set col) row"

section \<open>The Dense Extractor\<close>

text \<open>
  Lines 39 to 45 of \<^verbatim>\<open>extract_simple_table\<close>: the probe of one cell. Only
  \<^verbatim>\<open>NoElementFoundError\<close> is caught; it becomes the cell \<^verbatim>\<open>None\<close>.
\<close>

definition simple_cell ::
  "('e, 'c) collaborator \<Rightarrow> 'e list \<Rightarrow> 'e \<Rightarrow> 'e \<Rightarrow> error + 'e option" where
  "simple_cell K elements left_hand_element top_element =
     (case extract_single_element
             (below K (to_the_right_of K elements left_hand_element) top_element) of
        Inr element \<Rightarrow> Inr (Some element)
      | Inl e \<Rightarrow> if e = NoElementFoundError then Inr None else Inl e)"

text \<open>Lines 32 to 46: the grid, before the check of its size.\<close>

definition build_simple_table ::
  "('e, 'c) collaborator \<Rightarrow> 'e list \<Rightarrow> error + 'e option list list" where
  "build_simple_table K elements =
     (case getitem0 elements of
        Inl e \<Rightarrow> Inl e
      | Inr anchor \<Rightarrow>
          let first_row = to_the_right_of K elements anchor;
              first_column = below K elements anchor
          in for_append
               (\<lambda>left_hand_element.
                  for_append (\<lambda>top_element. simple_cell K elements left_hand_element top_element)
                    first_row)
               first_column)"

text \<open>
  \<^verbatim>\<open>extract_simple_table\<close>. \<open>table_size\<close> is \<^verbatim>\<open>sum(len(row) for row in table)\<close>: the
  number of cells of the grid, a cell \<^verbatim>\<open>None\<close> counting like any other.
\<close>

definition extract_simple_table ::
  "('e, 'c) collaborator \<Rightarrow> 'e list \<Rightarrow> error + 'e option list list" where
  "extract_simple_table K elements =
     (case build_simple_table K elements of
        Inl e \<Rightarrow> Inl e
      | Inr table \<Rightarrow>
          let table_size = sum_list (map length table) in
          if table_size \<noteq> length elements
          then Inl (TableExtractionError (SizeMismatch table_size (length elements)))
          else (case validate_table_shape table of
                  Inl e \<Rightarrow> Inl e
                | Inr _ \<Rightarrow> Inr table))"

text \<open>The number of cells of a grid that hold an element.\<close>

definition nonempty_cells :: "'e option list list \<Rightarrow> nat" where
  "nonempty_cells table = length (filter (\<lambda>cell. cell \<noteq> None) (concat table))"

section \<open>The Alignment Extractor\<close>

text \<open>
  A Python \<^verbatim>\<open>set\<close> of collections is the list of its pairwise different members;
  \<^verbatim>\<open>add\<close> leaves the set as it is when the member is there. Python fixes no iteration
  order for a set; here it is the order of insertion.
\<close>

definition set_add :: "'a list \<Rightarrow> 'a \<Rightarrow> 'a list" where
  "set_add s x = (if x \<in> set s then s else s @ [x])"

text \<open>Lines 75 to 81: the loop that collects \<open>rows\<close> and \<open>cols\<close>.\<close>

definition row_sets :: "('e, 'c) collaborator \<Rightarrow> 'e list \<Rightarrow> 'e list list" where
  "row_sets K elements =
     fold (\<lambda>element rows. set_add rows (horizontally_in_line_with K elements element)) elements []"

definition column_sets :: "('e, 'c) collaborator \<Rightarrow> 'e list \<Rightarrow> 'e list list" where
  "column_sets K elements =
     fold (\<lambda>element cols. set_add cols (vertically_in_line_with K elements element)) elements []"

text \<open>\<^verbatim>\<open>min(xs)\<close> raises \<^verbatim>\<open>ValueError\<close> on an empty list.\<close>

definition py_min :: "'c::linorder list \<Rightarrow> error + 'c" where
  "py_min xs = (case xs of [] \<Rightarrow> Inl ValueError | x # rest \<Rightarrow> Inr (fold min rest x))"

text \<open>
  \<^verbatim>\<open>sorted(xs, key=..., reverse=...)\<close>: the keys are computed first, one per member; the
  sort is stable, and with \<^verbatim>\<open>reverse=True\<close> members of equal key keep their order too.
\<close>

definition sorted_py :: "('a \<Rightarrow> error + 'c::linorder) \<Rightarrow> bool \<Rightarrow> 'a list \<Rightarrow> error + 'a list" where
  "sorted_py key reverse xs =
     (case for_append key xs of
        Inl e \<Rightarrow> Inl e
      | Inr ks \<Rightarrow>
          Inr (map snd
                 (if reverse then rev (sort_key fst (rev (zip ks xs)))
                  else sort_key fst (zip ks xs))))"

text \<open>
  Lines 99 to 103 of \<^verbatim>\<open>extract_table\<close>: the probe of one cell. Here too
  \<^verbatim>\<open>NoElementFoundError\<close>, and nothing else, is caught and becomes \<^verbatim>\<open>None\<close>.
\<close>

definition table_cell :: "'e list \<Rightarrow> 'e list \<Rightarrow> error + 'e option" where
  "table_cell row col =
     (case extract_single_element (intersection row col) of
        Inr element \<Rightarrow> Inr (Some element)
      | Inl e \<Rightarrow> if e = NoElementFoundError then Inr None else Inl e)"

text \<open>\<^verbatim>\<open>extract_table\<close>.\<close>

definition extract_table ::
  "('e, 'c::linorder) collaborator \<Rightarrow> 'e list \<Rightarrow> error + 'e option list list" where
  "extract_table K elements =
     (let rows = row_sets K elements;
          cols = column_sets K elements
      in if sum_list (map length rows) \<noteq> card (set (concat rows))
         then Inl (TableExtractionError MultipleRows)
         else if sum_list (map length cols) \<noteq> card (set (concat cols))
         then Inl (TableExtractionError MultipleColumns)
         else (case sorted_py (\<lambda>row. py_min (map (y0 K) row)) True rows of
                 Inl e \<Rightarrow> Inl e
               | Inr sorted_rows \<Rightarrow>
                   (case sorted_py (\<lambda>col. py_min (map (x0 K) col)) False cols of
                      Inl e \<Rightarrow> Inl e
                    | Inr sorted_cols \<Rightarrow>
                        (case for_append
                                (\<lambda>row. for_append (\<lambda>col. table_cell row col) sorted_cols)
                                sorted_rows of
                           Inl e \<Rightarrow> Inl e
                         | Inr table \<Rightarrow>
                             (case validate_table_shape table of
                                Inl e \<Rightarrow> Inl e
                              | Inr _ \<Rightarrow> Inr table)))))"

text \<open>\<^verbatim>\<open>extract_text_from_simple_table\<close> and \<^verbatim>\<open>extract_text_from_table\<close>.\<close>

definition extract_text_from_simple_table ::
  "('e, 'c) collaborator \<Rightarrow> 'e list \<Rightarrow> error + string list list" where
  "extract_text_from_simple_table K elements =
     (case extract_simple_table K elements of
        Inl e \<Rightarrow> Inl e
      | Inr table \<Rightarrow> extract_text_from_table_priv (element_text K) table)"

definition extract_text_from_table ::
  "('e, 'c::linorder) collaborator \<Rightarrow> 'e list \<Rightarrow> error + string list list" where
  "extract_text_from_table K elements =
     (case extract_table K elements of
        Inl e \<Rightarrow> Inl e
      | Inr table \<Rightarrow> extract_text_from_table_priv (element_text K) table)"

section \<open>Rectangular grids\<close>

text \<open>A grid is rectangular when each of its rows is as long as its first one.\<close>

definition rectangular :: "'a list list \<Rightarrow> bool" where
  "rectangular table =
     (case table of
        [] \<Rightarrow> True
      | row0 # rest \<Rightarrow> list_all (\<lambda>row. length row = length row0) rest)"

section \<open>A collaborator on bounding boxes\<close>

text \<open>
  Modelled from the spec: one collaborator, for the concrete layouts below. An element is
  a bounding box with integer corners and a text. Two elements are horizontally in line
  when their ranges on the y axis meet, vertically in line when their ranges on the x
  axis meet; an element is to the right of a reference when it is horizontally in line
  with it and starts at or after the reference's left edge, below it when it is
  vertically in line with it and starts at or under the reference's lower edge. Every
  query keeps the iteration order of the collection it filters.
\<close>

datatype pdf_element = PDFElement (bx0: int) (bx1: int) (by0: int) (by1: int) (btext: string)

definition ranges_meet :: "int \<Rightarrow> int \<Rightarrow> int \<Rightarrow> int \<Rightarrow> bool" where
  "ranges_meet a0 a1 b0 b1 = (a0 \<le> b1 \<and> b0 \<le> a1)"

definition in_line_h :: "pdf_element \<Rightarrow> pdf_element \<Rightarrow> bool" where
  "in_line_h ref el = ranges_meet (by0 ref) (by1 ref) (by0 el) (by1 el)"

definition in_line_v :: "pdf_element \<Rightarrow> pdf_element \<Rightarrow> bool" where
  "in_line_v ref el = ranges_meet (bx0 ref) (bx1 ref) (bx0 el) (bx1 el)"

definition boxes :: "(pdf_element, int) collaborator" where
  "boxes =
     \<lparr> to_the_right_of = (\<lambda>elements ref. filter (\<lambda>el. in_line_h ref el \<and> bx0 ref \<le> bx0 el) elements),
       below = (\<lambda>elements ref. filter (\<lambda>el. in_line_v ref el \<and> by0 el \<le> by0 ref) elements),
       horizontally_in_line_with = (\<lambda>elements ref. filter (in_line_h ref) elements),
       vertically_in_line_with = (\<lambda>elements ref. filter (in_line_v ref) elements),
       x0 = bx0, y0 = by0, element_text = btext \<rparr>"

text \<open>
  Three layouts. Two rows and two columns, every cell taken; the same with the lower
  right cell missing; and two small elements at opposite corners of a third that spans
  both rows and both columns. The y axis points up, so the row of \<open>A\<close> and \<open>B\<close> is the top
  one.
\<close>

definition dense_layout :: "pdf_element list" where
  "dense_layout =
     [PDFElement 0 1 10 11 ''A'', PDFElement 10 11 10 11 ''B'',
      PDFElement 0 1 0 1 ''C'', PDFElement 10 11 0 1 ''D'']"

definition gap_layout :: "pdf_element list" where
  "gap_layout =
     [PDFElement 0 1 10 11 ''A'', PDFElement 10 11 10 11 ''B'', PDFElement 0 1 0 1 ''C'']"

definition spanning_layout :: "pdf_element list" where
  "spanning_layout =
     [PDFElement 0 1 10 11 ''A'', PDFElement 0 11 0 11 ''X'', PDFElement 10 11 0 1 ''D'']"

text \<open>
  A fourth layout: two elements side by side over a third that is as wide as both, so that
  the rows are apart and the columns are not.
\<close>

definition wide_layout :: "pdf_element list" where
  "wide_layout =
     [PDFElement 0 1 10 11 ''A'', PDFElement 10 11 10 11 ''B'', PDFElement 0 11 0 1 ''W'']"

text \<open>
  Two more inputs. A layout of two elements in the same place, which are in one row and in
  one column; and the collaborator on bounding boxes changed so that nothing is ever
  horizontally in line with anything, not even an element with itself.
\<close>

definition stacked_layout :: "pdf_element list" where
  "stacked_layout = [PDFElement 0 1 0 1 ''P'', PDFElement 0 1 0 1 ''Q'']"

definition no_rows :: "(pdf_element, int) collaborator" where
  "no_rows = boxes \<lparr> horizontally_in_line_with := (\<lambda>elements ref. []) \<rparr>"

section \<open>The Shape Validator: properties\<close>

lemma validate_rows_ok:
  "validate_rows n k rows = Inr () \<longleftrightarrow> (\<forall>r \<in> set rows. length r = n)"
  by (induction rows arbitrary: k) auto

lemma validate_rows_fails:
  "\<not> (\<forall>r \<in> set rows. length r = n) \<Longrightarrow>
   \<exists>i < length rows.
      length (rows ! i) \<noteq> n \<and> (\<forall>j < i. length (rows ! j) = n) \<and>
      validate_rows n k rows = Inl (InvalidTableError n (k + i + 1) (length (rows ! i)))"
proof (induction rows arbitrary: k)
  case Nil
  then show ?case by simp
next
  case (Cons row rows)
  show ?case
  proof (cases "length row = n")
    case False
    then have "length ((row # rows) ! 0) \<noteq> n \<and> (\<forall>j < 0. length ((row # rows) ! j) = n) \<and>
      validate_rows n k (row # rows) = Inl (InvalidTableError n (k + 0 + 1) (length ((row # rows) ! 0)))"
      by simp
    then show ?thesis by blast
  next
    case True
    with Cons.prems have "\<not> (\<forall>r \<in> set rows. length r = n)" by simp
    from Cons.IH [OF this, of "Suc k"] obtain i where i: "i < length rows"
      "length (rows ! i) \<noteq> n" "\<forall>j < i. length (rows ! j) = n"
      "validate_rows n (Suc k) rows = Inl (InvalidTableError n (Suc k + i + 1) (length (rows ! i)))"
      by blast
    have "\<forall>j < Suc i. length ((row # rows) ! j) = n"
      using True i(3) by (auto simp: nth_Cons split: nat.splits)
    with i True have "Suc i < length (row # rows) \<and> length ((row # rows) ! Suc i) \<noteq> n \<and>
      (\<forall>j < Suc i. length ((row # rows) ! j) = n) \<and>
      validate_rows n k (row # rows) =
        Inl (InvalidTableError n (k + Suc i + 1) (length ((row # rows) ! Suc i)))"
      by simp
    then show ?thesis by blast
  qed
qed

text \<open>
  C5. On a grid with at least one row the Shape Validator succeeds exactly when every row
  is as long as row 0. Otherwise it fails with the \<^verbatim>\<open>InvalidTableError\<close> that names the
  length of row 0, the index of the first row of another length, and that row's length.
\<close>

theorem validate_table_shape_iff:
  assumes "table \<noteq> []"
  shows "(validate_table_shape table = Inr () \<longleftrightarrow>
            (\<forall>r \<in> set table. length r = length (table ! 0))) \<and>
         (validate_table_shape table \<noteq> Inr () \<longrightarrow>
            (\<exists>i. 0 < i \<and> i < length table \<and>
                 length (table ! i) \<noteq> length (table ! 0) \<and>
                 (\<forall>j < i. length (table ! j) = length (table ! 0)) \<and>
                 validate_table_shape table =
                   Inl (InvalidTableError (length (table ! 0)) i (length (table ! i)))))"
proof -
  from assms obtain row0 rest where t: "table = row0 # rest" by (cases table) auto
  have ok: "validate_table_shape table = Inr () \<longleftrightarrow>
      (\<forall>r \<in> set table. length r = length (table ! 0))"
    by (simp add: t validate_table_shape_def validate_rows_ok)
  have bad: "\<exists>i. 0 < i \<and> i < length table \<and>
                 length (table ! i) \<noteq> length (table ! 0) \<and>
                 (\<forall>j < i. length (table ! j) = length (table ! 0)) \<and>
                 validate_table_shape table =
                   Inl (InvalidTableError (length (table ! 0)) i (length (table ! i)))"
    if "validate_table_shape table \<noteq> Inr ()"
  proof -
    from that have "\<not> (\<forall>r \<in> set rest. length r = length row0)"
      by (simp add: t validate_table_shape_def validate_rows_ok)
    from validate_rows_fails [OF this, of 0] obtain i where i: "i < length rest"
      "length (rest ! i) \<noteq> length row0" "\<forall>j < i. length (rest ! j) = length row0"
      "validate_rows (length row0) 0 rest =
         Inl (InvalidTableError (length row0) (0 + i + 1) (length (rest ! i)))"
      by blast
    have "\<forall>j < Suc i. length (table ! j) = length (table ! 0)"
      using i(3) by (auto simp: t nth_Cons split: nat.splits)
    with i have "0 < Suc i \<and> Suc i < length table \<and>
        length (table ! Suc i) \<noteq> length (table ! 0) \<and>
        (\<forall>j < Suc i. length (table ! j) = length (table ! 0)) \<and>
        validate_table_shape table =
          Inl (InvalidTableError (length (table ! 0)) (Suc i) (length (table ! Suc i)))"
      by (simp add: t validate_table_shape_def)
    then show ?thesis by blast
  qed
  from ok bad show ?thesis by blast
qed

theorem validate_table_shape_iff_witness:
  "[[''a'', ''b''], [''c'']] \<noteq> [] \<and>
   validate_table_shape [[''a'', ''b''], [''c'']] = Inl (InvalidTableError 2 1 1) \<and>
   length ([[''a'', ''b''], [''c'']] ! 1) \<noteq> length ([[''a'', ''b''], [''c'']] ! 0)"
  using validate_table_shape_iff [of "[[''a'', ''b''], [''c'']]"]
  by (simp add: validate_table_shape_def)

lemma rectangular_iff:
  "rectangular table \<longleftrightarrow> (\<forall>r \<in> set table. length r = length (table ! 0))"
  by (cases table) (auto simp: rectangular_def list_all_iff)

lemma validate_table_shape_Inr:
  "validate_table_shape table = Inr u \<longleftrightarrow> table \<noteq> [] \<and> rectangular table"
  by (cases table) (auto simp: validate_table_shape_def rectangular_def list_all_iff validate_rows_ok)

lemma validate_table_shape_errors:
  "validate_table_shape table = Inl e \<Longrightarrow> e = IndexError \<or> (\<exists>n i m. e = InvalidTableError n i m)"
proof (cases table)
  case Nil
  then show "validate_table_shape table = Inl e \<Longrightarrow> ?thesis"
    by (simp add: validate_table_shape_def)
next
  case (Cons row0 rest)
  have "validate_rows n k rows = Inl e \<Longrightarrow> \<exists>n i m. e = InvalidTableError n i m" for n k rows
    by (induction rows arbitrary: k) (auto split: if_splits)
  then show "validate_table_shape table = Inl e \<Longrightarrow> ?thesis"
    by (auto simp: validate_table_shape_def Cons)
qed

section \<open>The empty grid\<close>

text \<open>
  C10. The Shape Validator raises \<^verbatim>\<open>IndexError\<close> on a grid with no row, and so do the
  operations that start with it, whatever their other argument:
  \<^verbatim>\<open>add_header_to_table\<close> and \<^verbatim>\<open>_extract_text_from_table\<close>. The Alignment Extractor
  builds the empty grid from an empty collection and fails on it in the same way, and
  with it \<^verbatim>\<open>extract_text_from_table\<close>.
\<close>

theorem empty_grid_IndexError:
  "validate_table_shape [] = Inl IndexError \<and>
   add_header_to_table [] header = Inl IndexError \<and>
   extract_text_from_table_priv text [] = Inl IndexError \<and>
   extract_table K [] = Inl IndexError \<and>
   extract_text_from_table K [] = Inl IndexError"
proof -
  have v: "validate_table_shape [] = Inl IndexError"
    by (simp add: validate_table_shape_def)
  have t: "extract_table K [] = Inl IndexError"
    by (simp add: extract_table_def row_sets_def column_sets_def sorted_py_def v)
  show ?thesis
    by (simp add: v t add_header_to_table_def extract_text_from_table_priv_def
        extract_text_from_table_def)
qed

section \<open>Header merge: properties\<close>

lemma for_append_Inr:
  "(\<And>x. x \<in> set xs \<Longrightarrow> f x = Inr (g x)) \<Longrightarrow> for_append f xs = Inr (map g xs)"
  by (induction xs) auto

lemma for_append_length: "for_append f xs = Inr ys \<Longrightarrow> length ys = length xs"
  by (induction xs arbitrary: ys) (auto split: sum.splits)

lemma for_append_nth:
  "for_append f xs = Inr ys \<Longrightarrow> i < length xs \<Longrightarrow> f (xs ! i) = Inr (ys ! i)"
  by (induction xs arbitrary: ys i) (auto split: sum.splits simp: nth_Cons split: nat.splits)

lemma for_append_Inl: "for_append f xs = Inl e \<Longrightarrow> \<exists>x \<in> set xs. f x = Inl e"
  by (induction xs) (auto split: sum.splits)

lemma dict_of_row_updates:
  "length row \<le> length hdr \<Longrightarrow> dict_of_row hdr row d = Inr (AList.updates hdr row d)"
  by (induction hdr row d rule: dict_of_row.induct) (auto simp: AList.updates_def)

lemma update_fresh: "k \<notin> fst ` set d \<Longrightarrow> AList.update k v d = d @ [(k, v)]"
  by (induction d) auto

lemma updates_distinct_zip:
  "distinct ks \<Longrightarrow> set ks \<inter> fst ` set d = {} \<Longrightarrow> AList.updates ks vs d = d @ zip ks vs"
proof (induction ks arbitrary: vs d)
  case Nil
  then show ?case by simp
next
  case (Cons k ks)
  show ?case
  proof (cases vs)
    case Nil
    then show ?thesis by simp
  next
    case (Cons v vs')
    from Cons.prems have fresh: "k \<notin> fst ` set d" by auto
    from Cons.prems have "set ks \<inter> fst ` set (d @ [(k, v)]) = {}" by auto
    with Cons.IH [of "d @ [(k, v)]" vs'] Cons.prems
    have "AList.updates ks vs' (d @ [(k, v)]) = (d @ [(k, v)]) @ zip ks vs'" by simp
    with fresh show ?thesis by (simp add: Cons update_fresh)
  qed
qed

lemma add_header_None:
  assumes "table \<noteq> []" "rectangular table"
  shows "add_header_to_table table None =
         Inr (map (\<lambda>row. AList.updates (table ! 0) row []) (tl table))"
proof -
  from assms(1) obtain row0 rest where t: "table = row0 # rest" by (cases table) auto
  have len: "\<And>row. row \<in> set table \<Longrightarrow> length row = length row0"
    using assms(2) by (auto simp: rectangular_iff t)
  have "for_append (\<lambda>row. dict_of_row row0 row []) table =
        Inr (map (\<lambda>row. AList.updates row0 row []) table)"
    by (rule for_append_Inr) (simp add: dict_of_row_updates len)
  moreover have "validate_table_shape table = Inr ()"
    using assms by (simp add: validate_table_shape_Inr)
  ultimately show ?thesis
    by (simp add: add_header_to_table_def choose_header_def getitem0_def pop0_def t)
qed

lemma add_header_Some:
  assumes "table \<noteq> []" "rectangular table" "length h = length (table ! 0)" "distinct h"
  shows "add_header_to_table table (Some h) =
         Inr (if h = [] then tl (map (\<lambda>row. zip h row) table) else map (\<lambda>row. zip h row) table)"
proof -
  from assms(1) obtain row0 rest where t: "table = row0 # rest" by (cases table) auto
  have len: "\<And>row. row \<in> set table \<Longrightarrow> length row = length h"
    using assms(2,3) by (auto simp: rectangular_iff t)
  have "for_append (\<lambda>row. dict_of_row h row []) table = Inr (map (\<lambda>row. zip h row) table)"
    by (rule for_append_Inr) (simp add: dict_of_row_updates len updates_distinct_zip assms(4))
  moreover have "validate_table_shape table = Inr ()"
    using assms by (simp add: validate_table_shape_Inr)
  moreover have "choose_header table (Some h) = Inr h"
    using assms(3,4) by (simp add: choose_header_def getitem0_def t distinct_card)
  ultimately show ?thesis
    by (simp add: add_header_to_table_def pop0_def t)
qed

text \<open>
  C3. Without a header argument the labels are row 0 of the grid, and nothing checks them:
  on the grid \<^verbatim>\<open>[["a","a"],["1","2"]]\<close> the operation does not raise, and its one row has
  the single key \<^verbatim>\<open>"a"\<close> for two columns. The same labels given as the header argument
  are refused.
\<close>

theorem implicit_header_repeated_label:
  "add_header_to_table [[''a'', ''a''], [''1'', ''2'']] None = Inr [[(''a'', ''2'')]] \<and>
   add_header_to_table [[''a'', ''a''], [''1'', ''2'']] (Some [''a'', ''a'']) =
     Inl (InvalidTableHeaderError HeaderRepeated)"
  by (simp add: add_header_to_table_def validate_table_shape_def choose_header_def
      getitem0_def pop0_def)

text \<open>
  C4. The empty list given as the header of a grid with no column passes both checks, but
  counts as no header: the first row is dropped. One row in gives no row out, two rows in
  give one.
\<close>

theorem empty_header_drops_first_row:
  "add_header_to_table [[]] (Some []) = Inr [] \<and>
   add_header_to_table [[], []] (Some []) = Inr [[]]"
  by (simp add: add_header_to_table_def validate_table_shape_def choose_header_def
      getitem0_def pop0_def)

text \<open>
  C7, as stated, fails on a first row with a repeated label: on \<^verbatim>\<open>[["a","a"],["1","2"]]\<close>
  the one row returned maps \<^verbatim>\<open>"a"\<close>, the label at position 0, to \<^verbatim>\<open>"2"\<close>, not to
  the entry \<^verbatim>\<open>"1"\<close> at position 0 of row 1.
\<close>

theorem implicit_header_positions_counterexample:
  "add_header_to_table [[''a'', ''a''], [''1'', ''2'']] None = Inr [[(''a'', ''2'')]] \<and>
   map_of ([[(''a'', ''2'')]] ! 0) ([[''a'', ''a''], [''1'', ''2'']] ! 0 ! 0) \<noteq>
     Some ([[''a'', ''a''], [''1'', ''2'']] ! 1 ! 0)"
  by (simp add: add_header_to_table_def validate_table_shape_def choose_header_def
      getitem0_def pop0_def)

text \<open>
  C7, amended. For a rectangular grid with at least one row whose first row has no
  repeated label, \<^verbatim>\<open>add_header_to_table(G, None)\<close> returns \<open>len(G) - 1\<close> rows; row \<open>i\<close> is
  the dictionary of the pairs of \<open>G[0]\<close> and \<open>G[i+1]\<close> in order, so it maps the label at each
  position to the entry of \<open>G[i+1]\<close> at that position.
\<close>

theorem add_header_implicit:
  assumes "table \<noteq> []" "rectangular table" "distinct (table ! 0)"
  shows "\<exists>out. add_header_to_table table None = Inr out \<and>
           length out = length table - 1 \<and>
           (\<forall>i < length table - 1.
              out ! i = zip (table ! 0) (table ! (i + 1)) \<and>
              (\<forall>j < length (table ! 0).
                 map_of (out ! i) (table ! 0 ! j) = Some (table ! (i + 1) ! j)))"
proof -
  let ?out = "map (\<lambda>row. AList.updates (table ! 0) row []) (tl table)"
  have res: "add_header_to_table table None = Inr ?out"
    using assms(1,2) by (rule add_header_None)
  have row: "?out ! i = zip (table ! 0) (table ! (i + 1))" if "i < length table - 1" for i
  proof -
    from that have "?out ! i = AList.updates (table ! 0) (tl table ! i) []" by simp
    also have "tl table ! i = table ! (i + 1)"
      using that by (simp add: nth_tl)
    finally show ?thesis
      using assms(3) by (simp add: updates_distinct_zip)
  qed
  have cell: "map_of (?out ! i) (table ! 0 ! j) = Some (table ! (i + 1) ! j)"
    if "i < length table - 1" "j < length (table ! 0)" for i j
  proof -
    from that(1) have "table ! (i + 1) \<in> set table" by simp
    with assms(2) have "length (table ! (i + 1)) = length (table ! 0)"
      by (simp add: rectangular_iff)
    with that(2) assms(3) show ?thesis
      by (simp add: row [OF that(1)] map_of_zip_nth)
  qed
  from res row cell show ?thesis by simp
qed

theorem add_header_implicit_witness:
  "[[''a'', ''b''], [''1'', ''2''], [''3'', ''4'']] \<noteq> [] \<and>
   rectangular [[''a'', ''b''], [''1'', ''2''], [''3'', ''4'']] \<and>
   distinct ([[''a'', ''b''], [''1'', ''2''], [''3'', ''4'']] ! 0) \<and>
   add_header_to_table [[''a'', ''b''], [''1'', ''2''], [''3'', ''4'']] None =
     Inr [[(''a'', ''1''), (''b'', ''2'')], [(''a'', ''3''), (''b'', ''4'')]]"
  using add_header_implicit [of "[[''a'', ''b''], [''1'', ''2''], [''3'', ''4'']]"]
  by (simp add: rectangular_def add_header_to_table_def validate_table_shape_def
      choose_header_def getitem0_def pop0_def)

text \<open>
  C8, as stated, fails on the grid with no row, which is rectangular: whatever its column
  count is taken to be, the header \<^verbatim>\<open>["a","a"]\<close> either has another length or repeats a
  label, and the operation raises \<^verbatim>\<open>IndexError\<close>.
\<close>

theorem header_checks_empty_grid_counterexample:
  "rectangular ([] :: string list list) \<and>
   add_header_to_table [] (Some [''a'', ''a'']) = Inl IndexError"
  by (simp add: rectangular_def add_header_to_table_def validate_table_shape_def)

text \<open>
  C8, amended. For a rectangular grid with at least one row and a header argument,
  \<^verbatim>\<open>add_header_to_table\<close> raises \<^verbatim>\<open>InvalidTableHeaderError\<close> when the header's length is
  not the length of row 0, and raises \<^verbatim>\<open>InvalidTableHeaderError\<close> when the lengths agree
  and the header repeats a label.
\<close>

theorem header_checks:
  assumes "table \<noteq> []" "rectangular table"
  shows "(length h \<noteq> length (table ! 0) \<longrightarrow>
            add_header_to_table table (Some h) =
              Inl (InvalidTableHeaderError (HeaderLength (length h) (length (table ! 0))))) \<and>
         (length h = length (table ! 0) \<and> \<not> distinct h \<longrightarrow>
            add_header_to_table table (Some h) = Inl (InvalidTableHeaderError HeaderRepeated))"
proof -
  from assms(1) obtain row0 rest where t: "table = row0 # rest" by (cases table) auto
  have v: "validate_table_shape table = Inr ()"
    using assms by (simp add: validate_table_shape_Inr)
  have rep: "\<not> distinct h \<Longrightarrow> length h \<noteq> card (set h)"
    using card_distinct [of h] by auto
  have c1: "choose_header table (Some h) =
      Inl (InvalidTableHeaderError (HeaderLength (length h) (length (table ! 0))))"
    if "length h \<noteq> length (table ! 0)"
    using that by (simp add: choose_header_def getitem0_def t)
  have c2: "choose_header table (Some h) = Inl (InvalidTableHeaderError HeaderRepeated)"
    if "length h = length (table ! 0)" "\<not> distinct h"
    using that rep by (simp add: choose_header_def getitem0_def t)
  from c1 c2 show ?thesis
    by (simp add: add_header_to_table_def v)
qed

theorem header_checks_witness:
  "[[''1'', ''2'', ''3'']] \<noteq> [] \<and> rectangular [[''1'', ''2'', ''3'']] \<and>
   length [''A'', ''B''] \<noteq> length ([[''1'', ''2'', ''3'']] ! 0) \<and>
   add_header_to_table [[''1'', ''2'', ''3'']] (Some [''A'', ''B'']) =
     Inl (InvalidTableHeaderError (HeaderLength 2 3)) \<and>
   length [''A'', ''A'', ''B''] = length ([[''1'', ''2'', ''3'']] ! 0) \<and>
   \<not> distinct [''A'', ''A'', ''B''] \<and>
   add_header_to_table [[''1'', ''2'', ''3'']] (Some [''A'', ''A'', ''B'']) =
     Inl (InvalidTableHeaderError HeaderRepeated)"
  using header_checks [of "[[''1'', ''2'', ''3'']]" "[''A'', ''B'']"]
    header_checks [of "[[''1'', ''2'', ''3'']]" "[''A'', ''A'', ''B'']"]
  by (simp add: rectangular_def)

section \<open>The extractors: auxiliary facts\<close>

lemma extract_single_element_Inl:
  "extract_single_element xs = Inl e \<Longrightarrow> e = NoElementFoundError \<or> e = MultipleElementsFoundError"
  by (auto simp: extract_single_element_def split: list.splits)

lemma simple_cell_Inl:
  "simple_cell K elements l t = Inl e \<longleftrightarrow>
   extract_single_element (below K (to_the_right_of K elements l) t) = Inl e \<and>
   e \<noteq> NoElementFoundError"
  by (auto simp: simple_cell_def split: sum.splits)

lemma table_cell_Inl:
  "table_cell row col = Inl e \<longleftrightarrow>
   extract_single_element (intersection row col) = Inl e \<and> e \<noteq> NoElementFoundError"
  by (auto simp: table_cell_def split: sum.splits)

lemma for_append_member:
  "for_append f xs = Inr ys \<Longrightarrow> x \<in> set xs \<Longrightarrow> \<exists>y. f x = Inr y"
  by (induction xs arbitrary: ys) (auto split: sum.splits)

lemma for_append_rows_length:
  "for_append (\<lambda>r. for_append (g r) cols) rws = Inr table \<Longrightarrow>
   \<forall>row \<in> set table. length row = length cols"
proof (induction rws arbitrary: table)
  case Nil
  then show ?case by simp
next
  case (Cons r rws)
  then show ?case
    by (auto split: sum.splits dest: for_append_length)
qed

lemma build_simple_table_Inl:
  "build_simple_table K elements = Inl e \<Longrightarrow> e = IndexError \<or> e = MultipleElementsFoundError"
proof -
  assume b: "build_simple_table K elements = Inl e"
  show ?thesis
  proof (cases elements)
    case Nil
    with b show ?thesis by (simp add: build_simple_table_def getitem0_def)
  next
    case (Cons anchor rest)
    with b have "\<exists>l t. simple_cell K elements l t = Inl e"
      by (auto simp: build_simple_table_def getitem0_def Let_def dest!: for_append_Inl)
    then show ?thesis
      using extract_single_element_Inl by (auto simp: simple_cell_Inl)
  qed
qed

lemma py_min_Inl: "py_min xs = Inl e \<Longrightarrow> e = ValueError"
  by (auto simp: py_min_def split: list.splits)

lemma sorted_py_Inl: "sorted_py key reverse xs = Inl e \<Longrightarrow> \<exists>x \<in> set xs. key x = Inl e"
  by (auto simp: sorted_py_def split: sum.splits dest: for_append_Inl)

lemma sorted_py_Inr:
  assumes "sorted_py key reverse xs = Inr ys"
  shows "set ys = set xs \<and> length ys = length xs"
proof -
  from assms obtain ks where ks: "for_append key xs = Inr ks"
    and ys: "ys = map snd (if reverse then rev (sort_key fst (rev (zip ks xs)))
                  else sort_key fst (zip ks xs))"
    by (auto simp: sorted_py_def split: sum.splits)
  from ks have len: "length ks = length xs" by (rule for_append_length)
  then have "snd ` set (zip ks xs) = set xs"
    by (metis map_snd_zip set_map)
  with len show ?thesis by (simp add: ys)
qed

lemma set_add_set: "set (set_add s x) = insert x (set s)"
  by (auto simp: set_add_def)

lemma set_add_distinct: "distinct s \<Longrightarrow> distinct (set_add s x)"
  by (auto simp: set_add_def)

lemma fold_set_add:
  "set (fold (\<lambda>x s. set_add s (f x)) xs s0) = set s0 \<union> f ` set xs \<and>
   (distinct s0 \<longrightarrow> distinct (fold (\<lambda>x s. set_add s (f x)) xs s0))"
  by (induction xs arbitrary: s0) (auto simp: set_add_set set_add_distinct)

lemma row_sets_set:
  "set (row_sets K elements) = horizontally_in_line_with K elements ` set elements"
  "distinct (row_sets K elements)"
  using fold_set_add [of "horizontally_in_line_with K elements" elements "[]"]
  by (simp_all add: row_sets_def)

lemma column_sets_set:
  "set (column_sets K elements) = vertically_in_line_with K elements ` set elements"
  "distinct (column_sets K elements)"
  using fold_set_add [of "vertically_in_line_with K elements" elements "[]"]
  by (simp_all add: column_sets_def)

lemma size_check_iff:
  "sum_list (map length xss) \<noteq> card (set (concat xss)) \<longleftrightarrow> \<not> distinct (concat xss)"
  using card_distinct [of "concat xss"] distinct_card [of "concat xss"]
  by (auto simp: length_concat)

lemma shared_element_iff:
  assumes "distinct xss" "\<forall>xs \<in> set xss. distinct xs"
  shows "\<not> distinct (concat xss) \<longleftrightarrow>
         (\<exists>xs \<in> set xss. \<exists>ys \<in> set xss. xs \<noteq> ys \<and> set xs \<inter> set ys \<noteq> {})"
  using assms by (auto simp: distinct_concat_iff distinct_removeAll)

lemma extract_table_after_checks:
  assumes "sum_list (map length (row_sets K elements)) = card (set (concat (row_sets K elements)))"
    "sum_list (map length (column_sets K elements)) = card (set (concat (column_sets K elements)))"
    "extract_table K elements = Inl e"
  shows "e = ValueError \<or> e = MultipleElementsFoundError \<or> e = IndexError \<or>
         (\<exists>n i m. e = InvalidTableError n i m)"
  using assms
  by (auto simp: extract_table_def Let_def table_cell_Inl split: sum.splits
      dest!: sorted_py_Inl for_append_Inl py_min_Inl extract_single_element_Inl
        validate_table_shape_errors)

lemma extract_simple_table_Inr:
  "extract_simple_table K elements = Inr table \<Longrightarrow>
   build_simple_table K elements = Inr table \<and> validate_table_shape table = Inr ()"
  by (auto simp: extract_simple_table_def Let_def split: sum.splits if_splits)

lemma extract_table_Inr:
  assumes "extract_table K elements = Inr table"
  shows "validate_table_shape table = Inr () \<and>
    (\<exists>sorted_rows sorted_cols.
       set sorted_rows = set (row_sets K elements) \<and>
       set sorted_cols = set (column_sets K elements) \<and>
       for_append (\<lambda>row. for_append (\<lambda>col. table_cell row col) sorted_cols) sorted_rows =
         Inr table)"
  using assms
  by (auto simp: extract_table_def Let_def split: sum.splits if_splits dest!: sorted_py_Inr)

lemma extract_single_element_short:
  "length xs \<le> 1 \<Longrightarrow> extract_single_element xs = Inl e \<Longrightarrow> e = NoElementFoundError"
  by (auto simp: extract_single_element_def split: list.splits)

lemma probe_error_cases:
  "extract_single_element xs = Inl e' \<Longrightarrow> e' \<noteq> NoElementFoundError \<Longrightarrow>
   e' = MultipleElementsFoundError"
  using extract_single_element_Inl by blast

lemma for_append_first_error:
  assumes "x \<in> set xs" "f x = Inl e"
  shows "\<exists>x' \<in> set xs. \<exists>e'. f x' = Inl e' \<and> for_append f xs = Inl e'"
proof (cases "for_append f xs")
  case (Inl e')
  with for_append_Inl [OF Inl] show ?thesis by blast
next
  case (Inr ys)
  from for_append_member [OF Inr assms(1)] assms(2) show ?thesis by simp
qed

lemma for_append_total:
  assumes "\<forall>x \<in> set xs. \<exists>y. f x = Inr y"
  shows "\<exists>ys. for_append f xs = Inr ys"
proof (cases "for_append f xs")
  case (Inl e)
  from for_append_Inl [OF Inl] assms show ?thesis by auto
next
  case (Inr ys)
  then show ?thesis by blast
qed

lemma nested_first_error:
  assumes "r \<in> set rws" "c \<in> set cls" "g r c = Inl e"
  shows "\<exists>r' \<in> set rws. \<exists>c' \<in> set cls. \<exists>e'. g r' c' = Inl e' \<and>
           for_append (\<lambda>r. for_append (g r) cls) rws = Inl e'"
proof -
  from for_append_first_error [of c cls "g r" e, OF assms(2,3)]
  obtain e1 where "for_append (g r) cls = Inl e1" by blast
  from for_append_first_error [of r rws "\<lambda>r. for_append (g r) cls" e1, OF assms(1) this]
  obtain r' e' where r': "r' \<in> set rws" "for_append (g r') cls = Inl e'"
    "for_append (\<lambda>r. for_append (g r) cls) rws = Inl e'"
    by blast
  from for_append_Inl [OF r'(2)] obtain c' where "c' \<in> set cls" "g r' c' = Inl e'" by blast
  with r' show ?thesis by blast
qed

lemma nested_total:
  assumes "\<forall>r \<in> set rws. \<forall>c \<in> set cls. \<exists>y. g r c = Inr y"
  shows "\<exists>table. for_append (\<lambda>r. for_append (g r) cls) rws = Inr table"
proof (rule for_append_total, rule ballI)
  fix r assume "r \<in> set rws"
  with assms have "\<forall>c \<in> set cls. \<exists>y. g r c = Inr y" by blast
  then show "\<exists>y. for_append (g r) cls = Inr y" by (rule for_append_total)
qed

lemma simple_cell_Inr:
  "(\<forall>e. extract_single_element (below K (to_the_right_of K elements l) t) = Inl e \<longrightarrow>
      e = NoElementFoundError) \<Longrightarrow> \<exists>y. simple_cell K elements l t = Inr y"
  by (cases "simple_cell K elements l t") (auto simp: simple_cell_Inl)

lemma table_cell_Inr:
  "(\<forall>e. extract_single_element (intersection row col) = Inl e \<longrightarrow> e = NoElementFoundError)
   \<Longrightarrow> \<exists>y. table_cell row col = Inr y"
  by (cases "table_cell row col") (auto simp: table_cell_Inl)

lemma dense_empty: "extract_simple_table K [] = Inl IndexError"
  by (simp add: extract_simple_table_def build_simple_table_def getitem0_def)

lemma dense_probe_error:
  assumes "getitem0 elements = Inr anchor"
    "l \<in> set (below K elements anchor)" "t \<in> set (to_the_right_of K elements anchor)"
    "extract_single_element (below K (to_the_right_of K elements l) t) = Inl e"
    "e \<noteq> NoElementFoundError"
  shows "\<exists>l' \<in> set (below K elements anchor). \<exists>t' \<in> set (to_the_right_of K elements anchor).
           \<exists>e'. extract_single_element (below K (to_the_right_of K elements l') t') = Inl e' \<and>
                e' \<noteq> NoElementFoundError \<and> extract_simple_table K elements = Inl e'"
proof -
  from assms(4,5) have "simple_cell K elements l t = Inl e" by (simp add: simple_cell_Inl)
  from nested_first_error [of l "below K elements anchor" t "to_the_right_of K elements anchor"
      "simple_cell K elements" e, OF assms(2,3) this]
  obtain l' t' e' where *: "l' \<in> set (below K elements anchor)"
    "t' \<in> set (to_the_right_of K elements anchor)" "simple_cell K elements l' t' = Inl e'"
    "for_append (\<lambda>l. for_append (simple_cell K elements l) (to_the_right_of K elements anchor))
       (below K elements anchor) = Inl e'"
    by blast
  from *(4) assms(1) have "build_simple_table K elements = Inl e'"
    by (simp add: build_simple_table_def Let_def)
  then have "extract_simple_table K elements = Inl e'"
    by (simp add: extract_simple_table_def)
  with * show ?thesis by (auto simp: simple_cell_Inl)
qed

lemma dense_no_probe_error:
  assumes "getitem0 elements = Inr anchor"
    "\<forall>l \<in> set (below K elements anchor). \<forall>t \<in> set (to_the_right_of K elements anchor).
       \<forall>e. extract_single_element (below K (to_the_right_of K elements l) t) = Inl e \<longrightarrow>
           e = NoElementFoundError"
  shows "\<exists>table. build_simple_table K elements = Inr table"
proof -
  have "\<forall>l \<in> set (below K elements anchor).
      \<forall>t \<in> set (to_the_right_of K elements anchor). \<exists>y. simple_cell K elements l t = Inr y"
  proof (intro ballI)
    fix l t
    assume "l \<in> set (below K elements anchor)" "t \<in> set (to_the_right_of K elements anchor)"
    with assms(2) show "\<exists>y. simple_cell K elements l t = Inr y"
      by (intro simple_cell_Inr) blast
  qed
  from nested_total [OF this] assms(1) show ?thesis
    by (simp add: build_simple_table_def Let_def)
qed

lemma sorted_py_min_error:
  assumes "[] \<in> set xss"
  shows "sorted_py (\<lambda>xs. py_min (map f xs)) reverse xss = Inl ValueError"
proof -
  have "py_min (map f []) = Inl ValueError" by (simp add: py_min_def)
  from for_append_first_error [of "[]" xss "\<lambda>xs. py_min (map f xs)", OF assms this]
  obtain e' where "for_append (\<lambda>xs. py_min (map f xs)) xss = Inl e'" "e' = ValueError"
    by (auto dest: py_min_Inl)
  then show ?thesis by (simp add: sorted_py_def)
qed

lemma sorted_py_min_total:
  assumes "[] \<notin> set xss"
  shows "\<exists>yss. sorted_py (\<lambda>xs. py_min (map f xs)) reverse xss = Inr yss \<and>
           set yss = set xss \<and> length yss = length xss"
proof -
  have "\<forall>xs \<in> set xss. \<exists>y. py_min (map f xs) = Inr y"
    using assms by (auto simp: py_min_def split: list.splits)
  from for_append_total [OF this] obtain ks where
    "for_append (\<lambda>xs. py_min (map f xs)) xss = Inr ks" by blast
  then obtain yss where "sorted_py (\<lambda>xs. py_min (map f xs)) reverse xss = Inr yss"
    by (simp add: sorted_py_def)
  with sorted_py_Inr [OF this] show ?thesis by blast
qed

lemma alignment_empty_set:
  assumes "sum_list (map length (row_sets K elements)) = card (set (concat (row_sets K elements)))"
    "sum_list (map length (column_sets K elements)) = card (set (concat (column_sets K elements)))"
    "[] \<in> set (row_sets K elements) \<or> [] \<in> set (column_sets K elements)"
  shows "extract_table K elements = Inl ValueError"
proof (cases "[] \<in> set (row_sets K elements)")
  case True
  from sorted_py_min_error [OF this, of "y0 K" True] assms(1,2) show ?thesis
    by (simp add: extract_table_def Let_def)
next
  case False
  from sorted_py_min_total [OF this, of "y0 K" True] obtain srows where
    "sorted_py (\<lambda>row. py_min (map (y0 K) row)) True (row_sets K elements) = Inr srows"
    by blast
  moreover from False assms(3) have "[] \<in> set (column_sets K elements)" by simp
  note sorted_py_min_error [OF this, of "x0 K" False]
  ultimately show ?thesis using assms(1,2)
    by (simp add: extract_table_def Let_def)
qed

lemma alignment_probe_error:
  assumes "sum_list (map length (row_sets K elements)) = card (set (concat (row_sets K elements)))"
    "sum_list (map length (column_sets K elements)) = card (set (concat (column_sets K elements)))"
    "[] \<notin> set (row_sets K elements)" "[] \<notin> set (column_sets K elements)"
    "row \<in> set (row_sets K elements)" "col \<in> set (column_sets K elements)"
    "extract_single_element (intersection row col) = Inl e" "e \<noteq> NoElementFoundError"
  shows "\<exists>row' \<in> set (row_sets K elements). \<exists>col' \<in> set (column_sets K elements).
           \<exists>e'. extract_single_element (intersection row' col') = Inl e' \<and>
                e' \<noteq> NoElementFoundError \<and> extract_table K elements = Inl e'"
proof -
  from sorted_py_min_total [OF assms(3)] obtain srows where
    sr: "sorted_py (\<lambda>row. py_min (map (y0 K) row)) True (row_sets K elements) = Inr srows"
      "set srows = set (row_sets K elements)"
    by blast
  from sorted_py_min_total [OF assms(4)] obtain scols where
    sc: "sorted_py (\<lambda>col. py_min (map (x0 K) col)) False (column_sets K elements) = Inr scols"
      "set scols = set (column_sets K elements)"
    by blast
  from assms(7,8) have "table_cell row col = Inl e" by (simp add: table_cell_Inl)
  moreover from assms(5) sr(2) have "row \<in> set srows" by simp
  moreover from assms(6) sc(2) have "col \<in> set scols" by simp
  ultimately obtain row' col' e' where *: "row' \<in> set srows" "col' \<in> set scols"
    "table_cell row' col' = Inl e'"
    "for_append (\<lambda>row. for_append (table_cell row) scols) srows = Inl e'"
    using nested_first_error [of row srows col scols table_cell e] by blast
  from *(4) sr(1) sc(1) assms(1,2) have "extract_table K elements = Inl e'"
    by (simp add: extract_table_def Let_def)
  with * sr(2) sc(2) show ?thesis by (auto simp: table_cell_Inl)
qed

lemma alignment_no_error:
  assumes "sum_list (map length (row_sets K elements)) = card (set (concat (row_sets K elements)))"
    "sum_list (map length (column_sets K elements)) = card (set (concat (column_sets K elements)))"
    "[] \<notin> set (row_sets K elements)" "[] \<notin> set (column_sets K elements)"
    "\<forall>row \<in> set (row_sets K elements). \<forall>col \<in> set (column_sets K elements).
       \<forall>e. extract_single_element (intersection row col) = Inl e \<longrightarrow> e = NoElementFoundError"
    "elements \<noteq> []"
  shows "\<exists>table. extract_table K elements = Inr table"
proof -
  from sorted_py_min_total [OF assms(3)] obtain srows where
    sr: "sorted_py (\<lambda>row. py_min (map (y0 K) row)) True (row_sets K elements) = Inr srows"
      "set srows = set (row_sets K elements)" "length srows = length (row_sets K elements)"
    by blast
  from sorted_py_min_total [OF assms(4)] obtain scols where
    sc: "sorted_py (\<lambda>col. py_min (map (x0 K) col)) False (column_sets K elements) = Inr scols"
      "set scols = set (column_sets K elements)"
    by blast
  have "\<forall>row \<in> set srows. \<forall>col \<in> set scols. \<exists>y. table_cell row col = Inr y"
  proof (intro ballI)
    fix row col
    assume "row \<in> set srows" "col \<in> set scols"
    with assms(5) sr(2) sc(2) show "\<exists>y. table_cell row col = Inr y"
      by (intro table_cell_Inr) blast
  qed
  from nested_total [OF this] obtain table where
    t: "for_append (\<lambda>row. for_append (table_cell row) scols) srows = Inr table"
    by blast
  from assms(6) have "set (row_sets K elements) \<noteq> {}" by (simp add: row_sets_set(1))
  with sr(3) for_append_length [OF t] have ne: "table \<noteq> []" by auto
  then have "table ! 0 \<in> set table" by simp
  with for_append_rows_length [OF t] have "rectangular table"
    by (simp add: rectangular_iff)
  with ne have "validate_table_shape table = Inr ()"
    by (simp add: validate_table_shape_Inr)
  with t sr(1) sc(1) assms(1,2) show ?thesis
    by (simp add: extract_table_def Let_def)
qed

section \<open>The layouts, evaluated\<close>

lemma gap_layout_build:
  "build_simple_table boxes gap_layout =
     Inr [[Some (PDFElement 0 1 10 11 ''A''), Some (PDFElement 10 11 10 11 ''B'')],
          [Some (PDFElement 0 1 0 1 ''C''), None]]"
  by code_simp

lemma gap_layout_dense:
  "extract_simple_table boxes gap_layout = Inl (TableExtractionError (SizeMismatch 4 3))"
  by code_simp

lemma gap_layout_alignment:
  "extract_table boxes gap_layout =
     Inr [[Some (PDFElement 0 1 10 11 ''A''), Some (PDFElement 10 11 10 11 ''B'')],
          [Some (PDFElement 0 1 0 1 ''C''), None]]"
  by code_simp

lemma dense_layout_dense:
  "extract_simple_table boxes dense_layout =
     Inr [[Some (PDFElement 0 1 10 11 ''A''), Some (PDFElement 10 11 10 11 ''B'')],
          [Some (PDFElement 0 1 0 1 ''C''), Some (PDFElement 10 11 0 1 ''D'')]]"
  by code_simp

lemma spanning_layout_dense:
  "extract_simple_table boxes spanning_layout = Inl MultipleElementsFoundError"
  by code_simp

lemma spanning_layout_alignment:
  "extract_table boxes spanning_layout = Inl (TableExtractionError MultipleRows)"
  by code_simp

lemma spanning_layout_columns:
  "sum_list (map length (column_sets boxes spanning_layout)) \<noteq>
   card (set (concat (column_sets boxes spanning_layout)))"
  by code_simp

lemma wide_layout_rows:
  "sum_list (map length (row_sets boxes wide_layout)) =
   card (set (concat (row_sets boxes wide_layout)))"
  by code_simp

lemma wide_layout_columns:
  "sum_list (map length (column_sets boxes wide_layout)) \<noteq>
   card (set (concat (column_sets boxes wide_layout)))"
  by code_simp

lemma wide_layout_distinct:
  "\<forall>ref \<in> set wide_layout. distinct (horizontally_in_line_with boxes wide_layout ref)"
  "\<forall>ref \<in> set wide_layout. distinct (vertically_in_line_with boxes wide_layout ref)"
  by code_simp+

lemma spanning_layout_probe:
  "getitem0 spanning_layout = Inr (PDFElement 0 1 10 11 ''A'')"
  "PDFElement 0 1 10 11 ''A'' \<in> set (below boxes spanning_layout (PDFElement 0 1 10 11 ''A''))"
  "PDFElement 0 1 10 11 ''A'' \<in>
     set (to_the_right_of boxes spanning_layout (PDFElement 0 1 10 11 ''A''))"
  "extract_single_element
     (below boxes (to_the_right_of boxes spanning_layout (PDFElement 0 1 10 11 ''A''))
        (PDFElement 0 1 10 11 ''A'')) = Inl MultipleElementsFoundError"
  by code_simp+

lemma stacked_layout_sets:
  "sum_list (map length (row_sets boxes stacked_layout)) =
     card (set (concat (row_sets boxes stacked_layout)))"
  "sum_list (map length (column_sets boxes stacked_layout)) =
     card (set (concat (column_sets boxes stacked_layout)))"
  "[] \<notin> set (row_sets boxes stacked_layout)"
  "[] \<notin> set (column_sets boxes stacked_layout)"
  "[PDFElement 0 1 0 1 ''P'', PDFElement 0 1 0 1 ''Q''] \<in> set (row_sets boxes stacked_layout)"
  "[PDFElement 0 1 0 1 ''P'', PDFElement 0 1 0 1 ''Q''] \<in> set (column_sets boxes stacked_layout)"
  "extract_single_element
     (intersection [PDFElement 0 1 0 1 ''P'', PDFElement 0 1 0 1 ''Q'']
        [PDFElement 0 1 0 1 ''P'', PDFElement 0 1 0 1 ''Q'']) = Inl MultipleElementsFoundError"
  by code_simp+

lemma no_rows_sets:
  "sum_list (map length (row_sets no_rows dense_layout)) =
     card (set (concat (row_sets no_rows dense_layout)))"
  "sum_list (map length (column_sets no_rows dense_layout)) =
     card (set (concat (column_sets no_rows dense_layout)))"
  "[] \<in> set (row_sets no_rows dense_layout)"
  by code_simp+

lemma gap_layout_sets:
  "sum_list (map length (row_sets boxes gap_layout)) =
     card (set (concat (row_sets boxes gap_layout)))"
  "sum_list (map length (column_sets boxes gap_layout)) =
     card (set (concat (column_sets boxes gap_layout)))"
  "[] \<notin> set (row_sets boxes gap_layout)"
  "[] \<notin> set (column_sets boxes gap_layout)"
  "\<forall>row \<in> set (row_sets boxes gap_layout). \<forall>col \<in> set (column_sets boxes gap_layout).
     length (intersection row col) \<le> 1"
  "gap_layout \<noteq> []"
  by code_simp+

lemma gap_layout_probes:
  "\<forall>row \<in> set (row_sets boxes gap_layout). \<forall>col \<in> set (column_sets boxes gap_layout).
     \<forall>e. extract_single_element (intersection row col) = Inl e \<longrightarrow> e = NoElementFoundError"
proof (intro ballI allI impI)
  fix row col e
  assume "row \<in> set (row_sets boxes gap_layout)" "col \<in> set (column_sets boxes gap_layout)"
  with gap_layout_sets(5) have "length (intersection row col) \<le> 1" by simp
  moreover assume "extract_single_element (intersection row col) = Inl e"
  ultimately show "e = NoElementFoundError" by (rule extract_single_element_short)
qed

section \<open>The Dense Extractor: the check of the size\<close>

text \<open>
  C1, as stated, fails on the layout with a missing cell: the grid has three cells that
  hold an element, as many as the collection has elements, and \<^verbatim>\<open>TableExtractionError\<close>
  is raised, since the grid has four cells.
\<close>

theorem dense_nonempty_count_counterexample:
  "build_simple_table boxes gap_layout =
     Inr [[Some (PDFElement 0 1 10 11 ''A''), Some (PDFElement 10 11 10 11 ''B'')],
          [Some (PDFElement 0 1 0 1 ''C''), None]] \<and>
   nonempty_cells [[Some (PDFElement 0 1 10 11 ''A''), Some (PDFElement 10 11 10 11 ''B'')],
          [Some (PDFElement 0 1 0 1 ''C''), None]] = length gap_layout \<and>
   extract_simple_table boxes gap_layout = Inl (TableExtractionError (SizeMismatch 4 3))"
  by (simp add: gap_layout_build gap_layout_dense) (simp add: nonempty_cells_def gap_layout_def)

text \<open>
  C1, amended. \<^verbatim>\<open>extract_simple_table\<close> fails with \<^verbatim>\<open>TableExtractionError\<close> exactly when the
  grid is reconstructed and the number of its cells, the cells \<^verbatim>\<open>None\<close> counted, is not
  the size of the input collection; the error then reports both numbers. When the two
  numbers agree the error is not raised. (No grid is reconstructed from an empty collection
  or when a probe finds several elements; the error is then another one.)
\<close>

theorem dense_size_check:
  "((\<exists>m. extract_simple_table K elements = Inl (TableExtractionError m)) \<longleftrightarrow>
      (\<exists>table. build_simple_table K elements = Inr table \<and>
         sum_list (map length table) \<noteq> length elements)) \<and>
   (\<forall>table. build_simple_table K elements = Inr table \<longrightarrow>
      (extract_simple_table K elements =
         Inl (TableExtractionError (SizeMismatch (sum_list (map length table)) (length elements)))
       \<longleftrightarrow> sum_list (map length table) \<noteq> length elements))"
proof (cases "build_simple_table K elements")
  case (Inl e)
  then have "extract_simple_table K elements = Inl e"
    by (simp add: extract_simple_table_def)
  moreover from Inl have "e = IndexError \<or> e = MultipleElementsFoundError"
    by (rule build_simple_table_Inl)
  ultimately show ?thesis using Inl by auto
next
  case (Inr table)
  show ?thesis
  proof (cases "sum_list (map length table) = length elements")
    case True
    have "extract_simple_table K elements \<noteq> Inl (TableExtractionError m)" for m
      using Inr True validate_table_shape_errors [of table "TableExtractionError m"]
      by (auto simp: extract_simple_table_def split: sum.splits)
    with Inr True show ?thesis by simp
  next
    case False
    with Inr show ?thesis by (simp add: extract_simple_table_def)
  qed
qed

theorem dense_size_check_witness:
  "build_simple_table boxes gap_layout =
     Inr [[Some (PDFElement 0 1 10 11 ''A''), Some (PDFElement 10 11 10 11 ''B'')],
          [Some (PDFElement 0 1 0 1 ''C''), None]] \<and>
   extract_simple_table boxes gap_layout = Inl (TableExtractionError (SizeMismatch 4 3))"
  using dense_size_check [of boxes gap_layout]
  by (simp add: gap_layout_build) (simp add: gap_layout_def)

section \<open>The Alignment Extractor: the checks of rows and columns\<close>

text \<open>
  C6, as stated, fails for the columns when the rows fail first: in the layout with an
  element spanning both rows and both columns the sizes of the column-sets do not add up,
  and the error raised is the one for rows, not the one for columns.
\<close>

theorem column_check_after_row_check_counterexample:
  "sum_list (map length (column_sets boxes spanning_layout)) \<noteq>
     card (set (concat (column_sets boxes spanning_layout))) \<and>
   extract_table boxes spanning_layout = Inl (TableExtractionError MultipleRows) \<and>
   extract_table boxes spanning_layout \<noteq> Inl (TableExtractionError MultipleColumns)"
  using spanning_layout_columns by (simp add: spanning_layout_alignment)

text \<open>
  C6, amended. \<^verbatim>\<open>extract_table\<close> raises the error "element in multiple rows" exactly when
  the sizes of the distinct row-sets do not add up to the number of distinct elements in
  them. It raises "element in multiple columns" exactly when the row-sets pass that check
  and the column-sets fail theirs. When the collaborator's row-sets (column-sets) list no
  element twice, failing the check is the same as two different row-sets (column-sets)
  sharing an element.
\<close>

theorem alignment_disjointness_checks:
  "(extract_table K elements = Inl (TableExtractionError MultipleRows) \<longleftrightarrow>
      sum_list (map length (row_sets K elements)) \<noteq> card (set (concat (row_sets K elements)))) \<and>
   (extract_table K elements = Inl (TableExtractionError MultipleColumns) \<longleftrightarrow>
      sum_list (map length (row_sets K elements)) = card (set (concat (row_sets K elements))) \<and>
      sum_list (map length (column_sets K elements)) \<noteq>
        card (set (concat (column_sets K elements)))) \<and>
   ((\<forall>ref \<in> set elements. distinct (horizontally_in_line_with K elements ref)) \<longrightarrow>
      (sum_list (map length (row_sets K elements)) \<noteq> card (set (concat (row_sets K elements)))
       \<longleftrightarrow> (\<exists>r1 \<in> set (row_sets K elements). \<exists>r2 \<in> set (row_sets K elements).
              r1 \<noteq> r2 \<and> set r1 \<inter> set r2 \<noteq> {}))) \<and>
   ((\<forall>ref \<in> set elements. distinct (vertically_in_line_with K elements ref)) \<longrightarrow>
      (sum_list (map length (column_sets K elements)) \<noteq>
         card (set (concat (column_sets K elements)))
       \<longleftrightarrow> (\<exists>c1 \<in> set (column_sets K elements). \<exists>c2 \<in> set (column_sets K elements).
              c1 \<noteq> c2 \<and> set c1 \<inter> set c2 \<noteq> {})))"
proof -
  let ?rows = "row_sets K elements" and ?cols = "column_sets K elements"
  let ?rbad = "sum_list (map length ?rows) \<noteq> card (set (concat ?rows))"
  let ?cbad = "sum_list (map length ?cols) \<noteq> card (set (concat ?cols))"
  have r1: "extract_table K elements = Inl (TableExtractionError MultipleRows)" if ?rbad
    using that by (simp add: extract_table_def Let_def)
  have c1: "extract_table K elements = Inl (TableExtractionError MultipleColumns)"
    if "\<not> ?rbad" ?cbad
    using that by (simp add: extract_table_def Let_def)
  have later: "extract_table K elements \<noteq> Inl (TableExtractionError m)"
    if "\<not> ?rbad" "\<not> ?cbad" for m
    using that extract_table_after_checks [of K elements "TableExtractionError m"] by auto
  have rows: "extract_table K elements = Inl (TableExtractionError MultipleRows) \<longleftrightarrow> ?rbad"
    using r1 c1 later by (cases ?rbad; cases ?cbad) auto
  have cols: "extract_table K elements = Inl (TableExtractionError MultipleColumns) \<longleftrightarrow>
      \<not> ?rbad \<and> ?cbad"
    using r1 c1 later by (cases ?rbad; cases ?cbad) auto
  have rshare: "?rbad \<longleftrightarrow> (\<exists>r1 \<in> set ?rows. \<exists>r2 \<in> set ?rows. r1 \<noteq> r2 \<and> set r1 \<inter> set r2 \<noteq> {})"
    if "\<forall>ref \<in> set elements. distinct (horizontally_in_line_with K elements ref)"
  proof -
    from that have "\<forall>xs \<in> set ?rows. distinct xs" by (simp add: row_sets_set(1))
    with row_sets_set(2) [of K elements] show ?thesis
      by (simp only: size_check_iff shared_element_iff)
  qed
  have cshare: "?cbad \<longleftrightarrow> (\<exists>c1 \<in> set ?cols. \<exists>c2 \<in> set ?cols. c1 \<noteq> c2 \<and> set c1 \<inter> set c2 \<noteq> {})"
    if "\<forall>ref \<in> set elements. distinct (vertically_in_line_with K elements ref)"
  proof -
    from that have "\<forall>xs \<in> set ?cols. distinct xs" by (simp add: column_sets_set(1))
    with column_sets_set(2) [of K elements] show ?thesis
      by (simp only: size_check_iff shared_element_iff)
  qed
  from rows cols rshare cshare show ?thesis by blast
qed

theorem alignment_disjointness_checks_witness:
  "sum_list (map length (row_sets boxes wide_layout)) =
     card (set (concat (row_sets boxes wide_layout))) \<and>
   \<not> (\<exists>r1 \<in> set (row_sets boxes wide_layout). \<exists>r2 \<in> set (row_sets boxes wide_layout).
        r1 \<noteq> r2 \<and> set r1 \<inter> set r2 \<noteq> {}) \<and>
   sum_list (map length (column_sets boxes wide_layout)) \<noteq>
     card (set (concat (column_sets boxes wide_layout))) \<and>
   (\<exists>c1 \<in> set (column_sets boxes wide_layout). \<exists>c2 \<in> set (column_sets boxes wide_layout).
      c1 \<noteq> c2 \<and> set c1 \<inter> set c2 \<noteq> {}) \<and>
   extract_table boxes wide_layout = Inl (TableExtractionError MultipleColumns) \<and>
   extract_table boxes wide_layout \<noteq> Inl (TableExtractionError MultipleRows)"
  using alignment_disjointness_checks [of boxes wide_layout]
    wide_layout_rows wide_layout_columns wide_layout_distinct
  by blast

section \<open>Grids returned by the extractors\<close>

text \<open>
  C9. A grid returned by \<^verbatim>\<open>extract_simple_table\<close> or by \<^verbatim>\<open>extract_table\<close>, whatever the
  collaborator, is rectangular: each row is as long as row 0. The Shape Validator succeeds
  on it, and validating it a second time after the first gives the result of validating
  it once.
\<close>

theorem returned_grid_rectangular:
  assumes "extract_simple_table K elements = Inr table \<or> extract_table K' elements' = Inr table"
  shows "rectangular table \<and>
         (\<forall>row \<in> set table. length row = length (table ! 0)) \<and>
         validate_table_shape table = Inr () \<and>
         (case validate_table_shape table of
            Inl e \<Rightarrow> Inl e
          | Inr _ \<Rightarrow> validate_table_shape table) = validate_table_shape table"
proof -
  from assms have v: "validate_table_shape table = Inr ()"
    using extract_simple_table_Inr extract_table_Inr by blast
  then have "rectangular table" by (simp add: validate_table_shape_Inr)
  with v show ?thesis by (simp add: rectangular_iff)
qed

theorem returned_grid_rectangular_witness:
  "extract_simple_table boxes dense_layout =
     Inr [[Some (PDFElement 0 1 10 11 ''A''), Some (PDFElement 10 11 10 11 ''B'')],
          [Some (PDFElement 0 1 0 1 ''C''), Some (PDFElement 10 11 0 1 ''D'')]] \<and>
   validate_table_shape
     [[Some (PDFElement 0 1 10 11 ''A''), Some (PDFElement 10 11 10 11 ''B'')],
      [Some (PDFElement 0 1 0 1 ''C''), Some (PDFElement 10 11 0 1 ''D'')]] = Inr () \<and>
   extract_table boxes gap_layout =
     Inr [[Some (PDFElement 0 1 10 11 ''A''), Some (PDFElement 10 11 10 11 ''B'')],
          [Some (PDFElement 0 1 0 1 ''C''), None]] \<and>
   validate_table_shape
     [[Some (PDFElement 0 1 10 11 ''A''), Some (PDFElement 10 11 10 11 ''B'')],
      [Some (PDFElement 0 1 0 1 ''C''), None]] = Inr ()"
proof -
  note d = dense_layout_dense and g = gap_layout_alignment
  from returned_grid_rectangular [OF disjI1, OF d]
    returned_grid_rectangular [OF disjI2, OF g] d g
  show ?thesis by simp
qed

section \<open>Which errors are caught\<close>

text \<open>
  C2, as stated, fails in \<^verbatim>\<open>extract_table\<close>: in the layout with a missing cell the probe
  of the lower row and the right column raises \<^verbatim>\<open>NoElementFoundError\<close>, and
  \<^verbatim>\<open>extract_table\<close> returns a grid, with \<^verbatim>\<open>None\<close> in that cell.
\<close>

theorem alignment_probe_caught_counterexample:
  "[PDFElement 0 1 0 1 ''C''] \<in> set (row_sets boxes gap_layout) \<and>
   [PDFElement 10 11 10 11 ''B''] \<in> set (column_sets boxes gap_layout) \<and>
   extract_single_element
     (intersection [PDFElement 0 1 0 1 ''C''] [PDFElement 10 11 10 11 ''B'']) =
     Inl NoElementFoundError \<and>
   extract_table boxes gap_layout =
     Inr [[Some (PDFElement 0 1 10 11 ''A''), Some (PDFElement 10 11 10 11 ''B'')],
          [Some (PDFElement 0 1 0 1 ''C''), None]]"
  by (simp add: gap_layout_alignment) code_simp

text \<open>
  C2, amended. A raised error is caught in two places, the probe of a cell in the Dense
  Extractor and the probe of a cell in the Alignment Extractor, and in both it is only
  \<^verbatim>\<open>NoElementFoundError\<close>, which becomes the cell \<^verbatim>\<open>None\<close>. Every other error goes
  out of the operation it is raised in:
  \<^item> a probe that raises another error makes its extractor raise the error of a probe, and
    an extractor that returns a grid met no such error in any cell it probed;
  \<^item> \<^verbatim>\<open>elements[0]\<close> on an empty collection makes \<^verbatim>\<open>extract_simple_table\<close> raise
    \<^verbatim>\<open>IndexError\<close>;
  \<^item> once both checks of \<^verbatim>\<open>extract_table\<close> have passed, an empty row-set or column-set
    makes it raise the \<^verbatim>\<open>ValueError\<close> of \<^verbatim>\<open>min\<close>;
  \<^item> the errors of the Shape Validator and of the header checks are the result of
    \<^verbatim>\<open>add_header_to_table\<close>, those of the Shape Validator the result of
    \<^verbatim>\<open>_extract_text_from_table\<close>, and those of an extractor the result of its text
    extractor.

  Where none of these errors is raised, the Dense Extractor builds its grid and the
  Alignment Extractor returns one.
\<close>

theorem only_no_element_found_is_caught:
  "(simple_cell K elements l t = Inl e \<longleftrightarrow>
      extract_single_element (below K (to_the_right_of K elements l) t) = Inl e \<and>
      e \<noteq> NoElementFoundError) \<and>
   (extract_single_element (below K (to_the_right_of K elements l) t) = Inl NoElementFoundError
      \<longrightarrow> simple_cell K elements l t = Inr None) \<and>
   (table_cell row col = Inl e \<longleftrightarrow>
      extract_single_element (intersection row col) = Inl e \<and> e \<noteq> NoElementFoundError) \<and>
   (extract_single_element (intersection row col) = Inl NoElementFoundError
      \<longrightarrow> table_cell row col = Inr None) \<and>
   (extract_simple_table K elements = Inr table \<and> getitem0 elements = Inr anchor \<and>
    l \<in> set (below K elements anchor) \<and> t \<in> set (to_the_right_of K elements anchor) \<and>
    extract_single_element (below K (to_the_right_of K elements l) t) = Inl e
      \<longrightarrow> e = NoElementFoundError) \<and>
   (extract_table K elements = Inr table' \<and>
    row \<in> set (row_sets K elements) \<and> col \<in> set (column_sets K elements) \<and>
    extract_single_element (intersection row col) = Inl e
      \<longrightarrow> e = NoElementFoundError) \<and>
   (validate_table_shape grid = Inl e \<longrightarrow> add_header_to_table grid header = Inl e) \<and>
   (validate_table_shape cells = Inl e \<longrightarrow> extract_text_from_table_priv text cells = Inl e) \<and>
   (extract_simple_table K elements = Inl e \<longrightarrow>
      extract_text_from_simple_table K elements = Inl e) \<and>
   (extract_table K elements = Inl e \<longrightarrow> extract_text_from_table K elements = Inl e) \<and>
   extract_simple_table K [] = Inl IndexError \<and>
   (build_simple_table K elements = Inl e \<longrightarrow> extract_simple_table K elements = Inl e) \<and>
   (getitem0 elements = Inr anchor \<and>
    l \<in> set (below K elements anchor) \<and> t \<in> set (to_the_right_of K elements anchor) \<and>
    extract_single_element (below K (to_the_right_of K elements l) t) = Inl e \<and>
    e \<noteq> NoElementFoundError
      \<longrightarrow> (\<exists>l' \<in> set (below K elements anchor).
            \<exists>t' \<in> set (to_the_right_of K elements anchor).
            \<exists>e'. extract_single_element (below K (to_the_right_of K elements l') t') = Inl e' \<and>
                 e' \<noteq> NoElementFoundError \<and> extract_simple_table K elements = Inl e')) \<and>
   (getitem0 elements = Inr anchor \<and>
    (\<forall>l \<in> set (below K elements anchor). \<forall>t \<in> set (to_the_right_of K elements anchor).
       \<forall>e. extract_single_element (below K (to_the_right_of K elements l) t) = Inl e \<longrightarrow>
           e = NoElementFoundError)
      \<longrightarrow> (\<exists>built. build_simple_table K elements = Inr built)) \<and>
   (sum_list (map length (row_sets K elements)) = card (set (concat (row_sets K elements))) \<and>
    sum_list (map length (column_sets K elements)) =
      card (set (concat (column_sets K elements))) \<and>
    ([] \<in> set (row_sets K elements) \<or> [] \<in> set (column_sets K elements))
      \<longrightarrow> extract_table K elements = Inl ValueError) \<and>
   (sum_list (map length (row_sets K elements)) = card (set (concat (row_sets K elements))) \<and>
    sum_list (map length (column_sets K elements)) =
      card (set (concat (column_sets K elements))) \<and>
    [] \<notin> set (row_sets K elements) \<and> [] \<notin> set (column_sets K elements) \<and>
    row \<in> set (row_sets K elements) \<and> col \<in> set (column_sets K elements) \<and>
    extract_single_element (intersection row col) = Inl e \<and> e \<noteq> NoElementFoundError
      \<longrightarrow> (\<exists>row' \<in> set (row_sets K elements). \<exists>col' \<in> set (column_sets K elements).
            \<exists>e'. extract_single_element (intersection row' col') = Inl e' \<and>
                 e' \<noteq> NoElementFoundError \<and> extract_table K elements = Inl e')) \<and>
   (sum_list (map length (row_sets K elements)) = card (set (concat (row_sets K elements))) \<and>
    sum_list (map length (column_sets K elements)) =
      card (set (concat (column_sets K elements))) \<and>
    [] \<notin> set (row_sets K elements) \<and> [] \<notin> set (column_sets K elements) \<and>
    (\<forall>row \<in> set (row_sets K elements). \<forall>col \<in> set (column_sets K elements).
       \<forall>e. extract_single_element (intersection row col) = Inl e \<longrightarrow>
           e = NoElementFoundError) \<and>
    elements \<noteq> []
      \<longrightarrow> (\<exists>returned. extract_table K elements = Inr returned)) \<and>
   (validate_table_shape grid = Inr () \<and> choose_header grid header = Inl e \<longrightarrow>
      add_header_to_table grid header = Inl e)"
proof -
  have dense: "e = NoElementFoundError"
    if "extract_simple_table K elements = Inr table" "getitem0 elements = Inr anchor"
      "l \<in> set (below K elements anchor)" "t \<in> set (to_the_right_of K elements anchor)"
      "extract_single_element (below K (to_the_right_of K elements l) t) = Inl e"
  proof -
    from that(1) have "build_simple_table K elements = Inr table"
      by (simp add: extract_simple_table_Inr)
    with that(2) have "for_append
        (\<lambda>l. for_append (\<lambda>t. simple_cell K elements l t) (to_the_right_of K elements anchor))
        (below K elements anchor) = Inr table"
      by (simp add: build_simple_table_def Let_def)
    from for_append_member [OF this that(3)] obtain r where
      "for_append (\<lambda>t. simple_cell K elements l t) (to_the_right_of K elements anchor) = Inr r"
      by blast
    from for_append_member [OF this that(4)] have "simple_cell K elements l t \<noteq> Inl e"
      by auto
    with that(5) show ?thesis by (simp add: simple_cell_Inl)
  qed
  have align: "e = NoElementFoundError"
    if "extract_table K elements = Inr table'" "row \<in> set (row_sets K elements)"
      "col \<in> set (column_sets K elements)"
      "extract_single_element (intersection row col) = Inl e"
  proof -
    from extract_table_Inr [OF that(1)] obtain sorted_rows sorted_cols where
      s: "set sorted_rows = set (row_sets K elements)"
        "set sorted_cols = set (column_sets K elements)"
        "for_append (\<lambda>row. for_append (\<lambda>col. table_cell row col) sorted_cols) sorted_rows =
           Inr table'"
      by blast
    from that(2) s(1) have "row \<in> set sorted_rows" by simp
    from for_append_member [OF s(3) this] obtain r where
      r: "for_append (\<lambda>col. table_cell row col) sorted_cols = Inr r"
      by blast
    from that(3) s(2) have "col \<in> set sorted_cols" by simp
    from for_append_member [OF r this] have "table_cell row col \<noteq> Inl e" by auto
    with that(4) show ?thesis by (simp add: table_cell_Inl)
  qed
  have c1: "simple_cell K elements l t = Inl e \<longleftrightarrow>
      extract_single_element (below K (to_the_right_of K elements l) t) = Inl e \<and>
      e \<noteq> NoElementFoundError"
    by (rule simple_cell_Inl)
  have c2: "extract_single_element (below K (to_the_right_of K elements l) t) = Inl NoElementFoundError
      \<longrightarrow> simple_cell K elements l t = Inr None"
    by (simp add: simple_cell_def)
  have c3: "table_cell row col = Inl e \<longleftrightarrow>
      extract_single_element (intersection row col) = Inl e \<and> e \<noteq> NoElementFoundError"
    by (rule table_cell_Inl)
  have c4: "extract_single_element (intersection row col) = Inl NoElementFoundError
      \<longrightarrow> table_cell row col = Inr None"
    by (simp add: table_cell_def)
  have c5: "extract_simple_table K elements = Inr table \<and> getitem0 elements = Inr anchor \<and>
    l \<in> set (below K elements anchor) \<and> t \<in> set (to_the_right_of K elements anchor) \<and>
    extract_single_element (below K (to_the_right_of K elements l) t) = Inl e
      \<longrightarrow> e = NoElementFoundError"
    using dense by blast
  have c6: "extract_table K elements = Inr table' \<and>
    row \<in> set (row_sets K elements) \<and> col \<in> set (column_sets K elements) \<and>
    extract_single_element (intersection row col) = Inl e
      \<longrightarrow> e = NoElementFoundError"
    using align by blast
  have c7: "validate_table_shape grid = Inl e \<longrightarrow> add_header_to_table grid header = Inl e"
    by (simp add: add_header_to_table_def)
  have c8: "validate_table_shape cells = Inl e \<longrightarrow> extract_text_from_table_priv text cells = Inl e"
    by (simp add: extract_text_from_table_priv_def)
  have c9: "extract_simple_table K elements = Inl e \<longrightarrow>
      extract_text_from_simple_table K elements = Inl e"
    by (simp add: extract_text_from_simple_table_def)
  have c10: "extract_table K elements = Inl e \<longrightarrow> extract_text_from_table K elements = Inl e"
    by (simp add: extract_text_from_table_def)
  have c11: "extract_simple_table K [] = Inl IndexError"
    by (rule dense_empty)
  have c12: "build_simple_table K elements = Inl e \<longrightarrow> extract_simple_table K elements = Inl e"
    by (simp add: extract_simple_table_def)
  have c13: "getitem0 elements = Inr anchor \<and>
    l \<in> set (below K elements anchor) \<and> t \<in> set (to_the_right_of K elements anchor) \<and>
    extract_single_element (below K (to_the_right_of K elements l) t) = Inl e \<and>
    e \<noteq> NoElementFoundError
      \<longrightarrow> (\<exists>l' \<in> set (below K elements anchor).
            \<exists>t' \<in> set (to_the_right_of K elements anchor).
            \<exists>e'. extract_single_element (below K (to_the_right_of K elements l') t') = Inl e' \<and>
                 e' \<noteq> NoElementFoundError \<and> extract_simple_table K elements = Inl e')"
    using dense_probe_error [of elements anchor l K t e] by blast
  have c14: "getitem0 elements = Inr anchor \<and>
    (\<forall>l \<in> set (below K elements anchor). \<forall>t \<in> set (to_the_right_of K elements anchor).
       \<forall>e. extract_single_element (below K (to_the_right_of K elements l) t) = Inl e \<longrightarrow>
           e = NoElementFoundError)
      \<longrightarrow> (\<exists>built. build_simple_table K elements = Inr built)"
    using dense_no_probe_error [of elements anchor K] by blast
  have c15: "sum_list (map length (row_sets K elements)) = card (set (concat (row_sets K elements))) \<and>
    sum_list (map length (column_sets K elements)) =
      card (set (concat (column_sets K elements))) \<and>
    ([] \<in> set (row_sets K elements) \<or> [] \<in> set (column_sets K elements))
      \<longrightarrow> extract_table K elements = Inl ValueError"
    using alignment_empty_set [of K elements] by blast
  have c16: "sum_list (map length (row_sets K elements)) = card (set (concat (row_sets K elements))) \<and>
    sum_list (map length (column_sets K elements)) =
      card (set (concat (column_sets K elements))) \<and>
    [] \<notin> set (row_sets K elements) \<and> [] \<notin> set (column_sets K elements) \<and>
    row \<in> set (row_sets K elements) \<and> col \<in> set (column_sets K elements) \<and>
    extract_single_element (intersection row col) = Inl e \<and> e \<noteq> NoElementFoundError
      \<longrightarrow> (\<exists>row' \<in> set (row_sets K elements). \<exists>col' \<in> set (column_sets K elements).
            \<exists>e'. extract_single_element (intersection row' col') = Inl e' \<and>
                 e' \<noteq> NoElementFoundError \<and> extract_table K elements = Inl e')"
    using alignment_probe_error [of K elements row col e] by blast
  have c17: "sum_list (map length (row_sets K elements)) = card (set (concat (row_sets K elements))) \<and>
    sum_list (map length (column_sets K elements)) =
      card (set (concat (column_sets K elements))) \<and>
    [] \<notin> set (row_sets K elements) \<and> [] \<notin> set (column_sets K elements) \<and>
    (\<forall>row \<in> set (row_sets K elements). \<forall>col \<in> set (column_sets K elements).
       \<forall>e. extract_single_element (intersection row col) = Inl e \<longrightarrow>
           e = NoElementFoundError) \<and>
    elements \<noteq> []
      \<longrightarrow> (\<exists>returned. extract_table K elements = Inr returned)"
    using alignment_no_error [of K elements] by blast
  have c18: "validate_table_shape grid = Inr () \<and> choose_header grid header = Inl e \<longrightarrow>
      add_header_to_table grid header = Inl e"
    by (simp add: add_header_to_table_def)
  show ?thesis
    by (intro conjI) (rule c1, rule c2, rule c3, rule c4, rule c5, rule c6, rule c7, rule c8, rule c9, rule c10, rule c11, rule c12, rule c13, rule c14, rule c15, rule c16, rule c17, rule c18)
qed

theorem only_no_element_found_is_caught_witness:
  "getitem0 spanning_layout = Inr (PDFElement 0 1 10 11 ''A'') \<and>
   extract_single_element
     (below boxes (to_the_right_of boxes spanning_layout (PDFElement 0 1 10 11 ''A''))
        (PDFElement 0 1 10 11 ''A'')) = Inl MultipleElementsFoundError \<and>
   extract_simple_table boxes spanning_layout = Inl MultipleElementsFoundError \<and>
   extract_text_from_simple_table boxes spanning_layout = Inl MultipleElementsFoundError \<and>
   extract_single_element
     (intersection [PDFElement 0 1 0 1 ''P'', PDFElement 0 1 0 1 ''Q'']
        [PDFElement 0 1 0 1 ''P'', PDFElement 0 1 0 1 ''Q'']) = Inl MultipleElementsFoundError \<and>
   extract_table boxes stacked_layout = Inl MultipleElementsFoundError \<and>
   extract_text_from_table boxes stacked_layout = Inl MultipleElementsFoundError \<and>
   [] \<in> set (row_sets no_rows dense_layout) \<and>
   extract_table no_rows dense_layout = Inl ValueError \<and>
   extract_single_element
     (intersection [PDFElement 0 1 0 1 ''C''] [PDFElement 10 11 10 11 ''B'']) =
     Inl NoElementFoundError \<and>
   table_cell [PDFElement 0 1 0 1 ''C''] [PDFElement 10 11 10 11 ''B''] = Inr None \<and>
   (\<exists>returned. extract_table boxes gap_layout = Inr returned)"
proof -
  let ?A = "PDFElement 0 1 10 11 ''A''"
  let ?PQ = "[PDFElement 0 1 0 1 ''P'', PDFElement 0 1 0 1 ''Q'']"
  let ?C = "[PDFElement 0 1 0 1 ''C'']"
  let ?B = "[PDFElement 10 11 10 11 ''B'']"
  note dense = only_no_element_found_is_caught
    [where K = boxes and elements = spanning_layout and anchor = ?A and l = ?A and t = ?A
      and e = MultipleElementsFoundError]
  have "\<exists>l' \<in> set (below boxes spanning_layout ?A).
          \<exists>t' \<in> set (to_the_right_of boxes spanning_layout ?A).
          \<exists>e'. extract_single_element
                 (below boxes (to_the_right_of boxes spanning_layout l') t') = Inl e' \<and>
               e' \<noteq> NoElementFoundError \<and> extract_simple_table boxes spanning_layout = Inl e'"
    by (rule dense [THEN conjunct2, THEN conjunct2, THEN conjunct2, THEN conjunct2, THEN conjunct2, THEN conjunct2, THEN conjunct2, THEN conjunct2, THEN conjunct2, THEN conjunct2, THEN conjunct2, THEN conjunct2, THEN conjunct1, THEN mp])
      (intro conjI spanning_layout_probe, simp)
  then obtain l' t' e' where
    "extract_single_element (below boxes (to_the_right_of boxes spanning_layout l') t') = Inl e'"
    "e' \<noteq> NoElementFoundError" "extract_simple_table boxes spanning_layout = Inl e'"
    by (elim bexE exE conjE) (rule that)
  with probe_error_cases [OF this(1,2)]
  have d1: "extract_simple_table boxes spanning_layout = Inl MultipleElementsFoundError"
    by simp
  have d2: "extract_text_from_simple_table boxes spanning_layout = Inl MultipleElementsFoundError"
    by (rule dense [THEN conjunct2, THEN conjunct2, THEN conjunct2, THEN conjunct2, THEN conjunct2, THEN conjunct2, THEN conjunct2, THEN conjunct2, THEN conjunct1, THEN mp]) (rule d1)
  note stacked = only_no_element_found_is_caught
    [where K = boxes and elements = stacked_layout and row = ?PQ and col = ?PQ
      and e = MultipleElementsFoundError]
  have "\<exists>row' \<in> set (row_sets boxes stacked_layout).
          \<exists>col' \<in> set (column_sets boxes stacked_layout).
          \<exists>e'. extract_single_element (intersection row' col') = Inl e' \<and>
               e' \<noteq> NoElementFoundError \<and> extract_table boxes stacked_layout = Inl e'"
    by (rule stacked [THEN conjunct2, THEN conjunct2, THEN conjunct2, THEN conjunct2, THEN conjunct2, THEN conjunct2, THEN conjunct2, THEN conjunct2, THEN conjunct2, THEN conjunct2, THEN conjunct2, THEN conjunct2, THEN conjunct2, THEN conjunct2, THEN conjunct2, THEN conjunct1, THEN mp])
      (intro conjI stacked_layout_sets, simp)
  then obtain row' :: "pdf_element list" and col' e'' where
    "extract_single_element (intersection row' col') = Inl e''"
    "e'' \<noteq> NoElementFoundError" "extract_table boxes stacked_layout = Inl e''"
    by (elim bexE exE conjE) (rule that)
  with probe_error_cases [OF this(1,2)]
  have a1: "extract_table boxes stacked_layout = Inl MultipleElementsFoundError"
    by simp
  have a2: "extract_text_from_table boxes stacked_layout = Inl MultipleElementsFoundError"
    by (rule stacked [THEN conjunct2, THEN conjunct2, THEN conjunct2, THEN conjunct2, THEN conjunct2, THEN conjunct2, THEN conjunct2, THEN conjunct2, THEN conjunct2, THEN conjunct1, THEN mp]) (rule a1)
  have a3: "extract_table no_rows dense_layout = Inl ValueError"
    by (rule only_no_element_found_is_caught [where K = no_rows and elements = dense_layout,
          THEN conjunct2, THEN conjunct2, THEN conjunct2, THEN conjunct2, THEN conjunct2, THEN conjunct2, THEN conjunct2, THEN conjunct2, THEN conjunct2, THEN conjunct2, THEN conjunct2, THEN conjunct2, THEN conjunct2, THEN conjunct2, THEN conjunct1, THEN mp])
      (intro conjI disjI1 no_rows_sets)
  have n: "extract_single_element (intersection ?C ?B) = Inl NoElementFoundError"
    by (simp add: extract_single_element_def intersection_def)
  have a4: "table_cell ?C ?B = Inr None"
    by (rule only_no_element_found_is_caught [where row = ?C and col = ?B,
          THEN conjunct2, THEN conjunct2, THEN conjunct2, THEN conjunct1, THEN mp])
      (rule n)
  have a5: "\<exists>returned. extract_table boxes gap_layout = Inr returned"
    by (rule only_no_element_found_is_caught [where K = boxes and elements = gap_layout,
          THEN conjunct2, THEN conjunct2, THEN conjunct2, THEN conjunct2, THEN conjunct2, THEN conjunct2, THEN conjunct2, THEN conjunct2, THEN conjunct2, THEN conjunct2, THEN conjunct2, THEN conjunct2, THEN conjunct2, THEN conjunct2, THEN conjunct2, THEN conjunct2, THEN conjunct1, THEN mp])
      (intro conjI gap_layout_sets(1-4,6) gap_layout_probes)
  from d1 d2 a1 a2 a3 a4 a5 n spanning_layout_probe(1,4) stacked_layout_sets(7) no_rows_sets(3)
  show ?thesis by (intro conjI)
qed

end
